theory Spec2Isabelle
  imports Complex_Main
begin

section \<open>The scoped timer of \<open>utils.py\<close>\<close>

text \<open>
  The program under verification:
  \<^verbatim>\<open>
  @contextmanager
  def timed(msg='', width=40):
      start = perf_counter()
      yield lambda: stop - start
      stop = perf_counter()
      print(f"{msg:<{width}}{stop - start:.3f}s")
  \<close>
  \<open>timed\<close> is a generator function; the decorator turns the generator into a context
  manager, so the model has three layers: the generator (its frame, and what resuming it
  or throwing into it does), the protocol by which \<open>contextlib\<close> drives a generator on
  entry to and exit from a \<open>with\<close> statement, and the \<open>with\<close> statement around a block.
\<close>

subsection \<open>Values, errors and the outside world\<close>

text \<open>
  A clock reading is a finite double; the model keeps its exact value, a rational number,
  and takes \<open>stop - start\<close> as the exact difference, which is what the floating-point
  subtraction returns whenever that difference is representable. A label is a list of
  characters, one element for each character of the Python string.
\<close>

type_synonym seconds = rat

datatype exn =
    NameError string
  | ValueError string
  | RuntimeError string
  | Failure string

text \<open>
  The world holds what the program reads and writes: \<open>clock\<close> is what the monotonic
  clock shows at this moment, \<open>stdout\<close> is every character written to standard output so
  far. Time passes while a block runs: a block is a function that returns a later world.
\<close>

record world =
  clock :: seconds
  stdout :: string

definition perf_counter :: "world \<Rightarrow> seconds \<times> world" where
  "perf_counter w = (clock w, w)"

definition newline :: char where
  "newline = CHR 0x0A"

definition print :: "string \<Rightarrow> world \<Rightarrow> world" where
  "print s w = w\<lparr>stdout := stdout w @ s @ [newline]\<rparr>"

subsection \<open>The two format specifications of the f-string\<close>

text \<open>
  \<open>{msg:<{width}}\<close> formats the string \<open>msg\<close> with the specification made of \<open><\<close>
  and the decimal text of \<open>width\<close>. For \<open>width \<ge> 0\<close> that is a left alignment in a field
  of at least \<open>width\<close> characters, padded with spaces. For a negative \<open>width\<close> the
  specification reads \<open><-5\<close>, the minus is taken as a sign option, and a sign option on a
  string raises \<open>ValueError\<close>. Limits of memory are not modelled.
\<close>

definition space :: char where
  "space = CHR '' ''"

definition format_str_left :: "string \<Rightarrow> int \<Rightarrow> exn + string" where
  "format_str_left s n =
     (if n < 0 then Inl (ValueError ''Sign not allowed in string format specifier'')
      else Inr (s @ replicate (nat n - length s) space))"

text \<open>
  \<open>{stop - start:.3f}\<close> prints a float in fixed notation with three digits after the
  point: the decimal numeral nearest to the exact value, a tie going to the even last
  digit, behind a minus sign when the value is negative.
\<close>

definition digit_char :: "nat \<Rightarrow> char" where
  "digit_char d = ''0123456789'' ! (d mod 10)"

fun str_nat :: "nat \<Rightarrow> string" where
  "str_nat n = (if n < 10 then [digit_char n] else str_nat (n div 10) @ [digit_char (n mod 10)])"

declare str_nat.simps [simp del]

definition round_half_even :: "rat \<Rightarrow> int" where
  "round_half_even x =
     (let f = \<lfloor>x\<rfloor>; r = x - of_int f
      in if r < 1 / 2 then f
         else if 1 / 2 < r then f + 1
         else if even f then f else f + 1)"

definition format_float_3f :: "rat \<Rightarrow> string" where
  "format_float_3f x =
     (let k = nat (round_half_even (\<bar>x\<bar> * 1000))
      in (if x < 0 then ''-'' else []) @ str_nat (k div 1000) @ ''.'' @
         [digit_char (k div 100 mod 10), digit_char (k div 10 mod 10), digit_char (k mod 10)])"

subsection \<open>The generator\<close>

text \<open>
  The frame of one call of \<open>timed\<close>: its two arguments, its two local variables (\<open>None\<close>
  while unassigned) and the place where the body stands. The body has one \<open>yield\<close>, hence
  three places.
\<close>

datatype pc = Entry | AtYield | Finished

record frame =
  msg :: string
  width :: int
  pc :: pc
  start :: "seconds option"
  stop :: "seconds option"

text \<open>Calling \<open>timed\<close> creates the generator and runs none of its body.\<close>

definition timed :: "string \<Rightarrow> int \<Rightarrow> frame" where
  "timed m n = \<lparr>msg = m, width = n, pc = Entry, start = None, stop = None\<rparr>"



text \<open>
  The yielded \<open>lambda: stop - start\<close> closes over the two local variables of the frame, not
  over their values: a call reads the frame as it is at the moment of the call. \<open>stop\<close> is
  read first; reading a variable that has no value yet raises \<open>NameError\<close>.
\<close>

definition elapsed :: "frame \<Rightarrow> exn + seconds" where
  "elapsed f =
     (case stop f of
        None \<Rightarrow> Inl (NameError ''stop'')
      | Some b \<Rightarrow>
          (case start f of
             None \<Rightarrow> Inl (NameError ''start'')
           | Some a \<Rightarrow> Inr (b - a)))"

text \<open>The f-string of the last line: the label field is formatted first, then the elapsed time.\<close>

definition summary :: "frame \<Rightarrow> exn + string" where
  "summary f =
     (case format_str_left (msg f) (width f) of
        Inl e \<Rightarrow> Inl e
      | Inr field \<Rightarrow>
          (case stop f of
             None \<Rightarrow> Inl (NameError ''stop'')
           | Some b \<Rightarrow>
               (case start f of
                  None \<Rightarrow> Inl (NameError ''start'')
                | Some a \<Rightarrow> Inr (field @ format_float_3f (b - a) @ ''s''))))"

datatype signal = Yield | StopIteration | Raise exn

text \<open>
  \<open>resume\<close> is \<open>next(gen)\<close>: the body runs from where it stands to its next \<open>yield\<close>, to its
  end or to an exception. \<open>throw\<close> is \<open>gen.throw(e)\<close>: the exception is raised at the
  \<open>yield\<close>, which no \<open>try\<close> statement encloses, so it leaves the generator at once and
  nothing after the \<open>yield\<close> runs.
\<close>

definition resume :: "frame \<Rightarrow> world \<Rightarrow> signal \<times> frame \<times> world" where
  "resume f w =
     (case pc f of
        Entry \<Rightarrow>
          (let (t, w1) = perf_counter w
           in (Yield, f\<lparr>pc := AtYield, start := Some t\<rparr>, w1))
      | AtYield \<Rightarrow>
          (let (t, w1) = perf_counter w;
               f1 = f\<lparr>pc := Finished, stop := Some t\<rparr>
           in case summary f1 of
                Inl e \<Rightarrow> (Raise e, f1, w1)
              | Inr s \<Rightarrow> (StopIteration, f1, print s w1))
      | Finished \<Rightarrow> (StopIteration, f, w))"

definition throw :: "exn \<Rightarrow> frame \<Rightarrow> world \<Rightarrow> signal \<times> frame \<times> world" where
  "throw e f w = (Raise e, f\<lparr>pc := Finished\<rparr>, w)"

subsection \<open>The context manager protocol and the \<open>with\<close> statement\<close>

text \<open>
  What \<open>contextlib\<close> does with the generator. On entry it resumes the generator once and
  expects a \<open>yield\<close>. On exit without an exception it resumes the generator again and
  expects it to end. On exit with an exception it throws the exception into the
  generator: when the same exception comes back out, the exit method returns false and the
  \<open>with\<close> statement raises the exception again; an exception the generator swallows is
  suppressed. The result \<open>Inr b\<close> of \<open>cm_exit\<close> is that return value.
\<close>

definition cm_enter :: "frame \<Rightarrow> world \<Rightarrow> (exn + unit) \<times> frame \<times> world" where
  "cm_enter g w =
     (case resume g w of
        (Yield, g1, w1) \<Rightarrow> (Inr (), g1, w1)
      | (StopIteration, g1, w1) \<Rightarrow> (Inl (RuntimeError ''generator did not yield''), g1, w1)
      | (Raise e, g1, w1) \<Rightarrow> (Inl e, g1, w1))"

definition cm_exit :: "exn option \<Rightarrow> frame \<Rightarrow> world \<Rightarrow> (exn + bool) \<times> frame \<times> world" where
  "cm_exit raised g w =
     (case raised of
        None \<Rightarrow>
          (case resume g w of
             (StopIteration, g1, w1) \<Rightarrow> (Inr False, g1, w1)
           | (Yield, g1, w1) \<Rightarrow> (Inl (RuntimeError ''generator did not stop''), g1, w1)
           | (Raise e, g1, w1) \<Rightarrow> (Inl e, g1, w1))
      | Some e \<Rightarrow>
          (case throw e g w of
             (StopIteration, g1, w1) \<Rightarrow> (Inr True, g1, w1)
           | (Yield, g1, w1) \<Rightarrow>
               (Inl (RuntimeError ''generator did not stop after throw''), g1, w1)
           | (Raise e1, g1, w1) \<Rightarrow> (if e1 = e then (Inr False, g1, w1) else (Inl e1, g1, w1))))"

text \<open>
  \<open>with timed(m, n) as t: block\<close>. The block receives \<open>t\<close>, the accessor: while the block
  runs the generator is suspended, so every call of \<open>t\<close> in the block reads the frame as
  entry left it. The block returns a value or raises, and leaves a later world. The
  statement returns the block's value (\<open>None\<close> if an exception was suppressed) or the
  exception that leaves it, together with the frame at the end, which is what a call of
  \<open>t\<close> after the statement reads, and the world at the end.
\<close>

type_synonym 'a block = "(unit \<Rightarrow> exn + seconds) \<Rightarrow> world \<Rightarrow> (exn + 'a) \<times> world"

definition with_timed ::
  "string \<Rightarrow> int \<Rightarrow> 'a block \<Rightarrow> world \<Rightarrow> (exn + 'a option) \<times> frame \<times> world" where
  "with_timed m n block w =
     (case cm_enter (timed m n) w of
        (Inl e, g1, w1) \<Rightarrow> (Inl e, g1, w1)
      | (Inr _, g1, w1) \<Rightarrow>
          (case block (\<lambda>_. elapsed g1) w1 of
             (Inr v, w2) \<Rightarrow>
               (case cm_exit None g1 w2 of
                  (Inl e, g2, w3) \<Rightarrow> (Inl e, g2, w3)
                | (Inr _, g2, w3) \<Rightarrow> (Inr (Some v), g2, w3))
           | (Inl e, w2) \<Rightarrow>
               (case cm_exit (Some e) g1 w2 of
                  (Inl e1, g2, w3) \<Rightarrow> (Inl e1, g2, w3)
                | (Inr suppress, g2, w3) \<Rightarrow>
                    (if suppress then (Inr None, g2, w3) else (Inl e, g2, w3)))))"

subsection \<open>The block inside the statement\<close>

text \<open>
  \<open>run_block\<close> is the run of the block as it happens inside \<open>with_timed\<close>: with the
  accessor and in the world that entry leaves. The theorems name the block's outcome by it.
\<close>

definition run_block :: "string \<Rightarrow> int \<Rightarrow> 'a block \<Rightarrow> world \<Rightarrow> (exn + 'a) \<times> world" where
  "run_block m n block w =
     (case cm_enter (timed m n) w of (_, g1, w1) \<Rightarrow> block (\<lambda>_. elapsed g1) w1)"

subsection \<open>Three blocks\<close>

text \<open>
  \<open>sleep d\<close> is a block that takes \<open>d\<close> seconds and returns; \<open>raise_after d e\<close> takes \<open>d\<close>
  seconds and raises \<open>e\<close>; neither calls the accessor. \<open>call_accessor\<close> calls the accessor
  once, takes no time and returns what the call gave, a value or an error, as its value.
\<close>

definition sleep :: "seconds \<Rightarrow> unit block" where
  "sleep d t w = (Inr (), w\<lparr>clock := clock w + d\<rparr>)"

definition raise_after :: "seconds \<Rightarrow> exn \<Rightarrow> unit block" where
  "raise_after d e t w = (Inl e, w\<lparr>clock := clock w + d\<rparr>)"

definition call_accessor :: "(exn + seconds) block" where
  "call_accessor t w = (Inr (t ()), w)"

subsection \<open>Reading a printed number back\<close>

text \<open>
  To say what a printed text means, the text is read back: \<open>parse_fixed\<close> splits a
  fixed-point numeral into its sign, the digits before the point and the digits after it,
  and \<open>fixed_value\<close> is the number such a numeral denotes.
\<close>

definition is_digit :: "char \<Rightarrow> bool" where
  "is_digit c = (c \<in> set ''0123456789'')"

definition digit_val :: "char \<Rightarrow> nat" where
  "digit_val c = of_char c - 48"

definition read_nat :: "string \<Rightarrow> nat" where
  "read_nat s = foldl (\<lambda>a c. 10 * a + digit_val c) 0 s"

definition parse_fixed :: "string \<Rightarrow> (bool \<times> string \<times> string) option" where
  "parse_fixed s =
     (let neg = (s \<noteq> [] \<and> hd s = CHR ''-'');
          t = (if neg then tl s else s);
          ip = takeWhile is_digit t
      in case dropWhile is_digit t of
           [] \<Rightarrow> None
         | c # fp \<Rightarrow>
             if c = CHR ''.'' \<and> ip \<noteq> [] \<and> fp \<noteq> [] \<and> list_all is_digit fp
             then Some (neg, ip, fp) else None)"

definition fixed_value :: "bool \<times> string \<times> string \<Rightarrow> rat" where
  "fixed_value p =
     (case p of (neg, ip, fp) \<Rightarrow>
        (if neg then - 1 else 1) *
        (of_nat (read_nat ip) + of_nat (read_nat fp) / 10 ^ length fp))"

section \<open>Runs of the \<open>with\<close> statement\<close>

lemma cm_enter_timed:
  "cm_enter (timed m n) w =
     (Inr (), \<lparr>msg = m, width = n, pc = AtYield, start = Some (clock w), stop = None\<rparr>, w)"
  by (simp add: cm_enter_def resume_def timed_def perf_counter_def)

lemma run_block_eq: "run_block m n block w = block (\<lambda>_. Inl (NameError ''stop'')) w"
  by (simp add: run_block_def cm_enter_timed elapsed_def)

text \<open>The three ways through the statement: the block raises, the block returns and the
  width is a valid one, the block returns and the width is negative.\<close>

lemma with_timed_raise:
  assumes "run_block m n block w = (Inl e, w2)"
  shows "with_timed m n block w =
           (Inl e, \<lparr>msg = m, width = n, pc = Finished, start = Some (clock w), stop = None\<rparr>, w2)"
  using assms
  by (simp add: with_timed_def run_block_def cm_enter_timed cm_exit_def throw_def)

lemma with_timed_normal:
  assumes "run_block m n block w = (Inr v, w2)" and "0 \<le> n"
  shows "with_timed m n block w =
           (Inr (Some v),
            \<lparr>msg = m, width = n, pc = Finished, start = Some (clock w), stop = Some (clock w2)\<rparr>,
            print (m @ replicate (nat n - length m) space
                     @ format_float_3f (clock w2 - clock w) @ ''s'') w2)"
  using assms
  by (simp add: with_timed_def run_block_def cm_enter_timed cm_exit_def resume_def
      perf_counter_def summary_def format_str_left_def)

lemma with_timed_bad_width:
  assumes "run_block m n block w = (Inr v, w2)" and "n < 0"
  shows "with_timed m n block w =
           (Inl (ValueError ''Sign not allowed in string format specifier''),
            \<lparr>msg = m, width = n, pc = Finished, start = Some (clock w), stop = Some (clock w2)\<rparr>,
            w2)"
  using assms
  by (simp add: with_timed_def run_block_def cm_enter_timed cm_exit_def resume_def
      perf_counter_def summary_def format_str_left_def)

text \<open>A statement that completes normally went the second way.\<close>

lemma with_timed_returns:
  assumes "with_timed m n block w = (Inr r, g, w3)"
  obtains v w2 where "run_block m n block w = (Inr v, w2)" and "0 \<le> n" and "r = Some v"
    and "g = \<lparr>msg = m, width = n, pc = Finished, start = Some (clock w),
               stop = Some (clock w2)\<rparr>"
    and "w3 = print (m @ replicate (nat n - length m) space
                       @ format_float_3f (clock w2 - clock w) @ ''s'') w2"
proof (cases "run_block m n block w")
  case (Pair res w2)
  show ?thesis
  proof (cases res)
    case (Inl e)
    with Pair assms with_timed_raise [of m n block w e w2] show ?thesis by simp
  next
    case (Inr v)
    show ?thesis
    proof (cases "0 \<le> n")
      case True
      with Pair Inr assms with_timed_normal [of m n block w v w2] that [of v w2]
      show ?thesis by simp
    next
      case False
      with Pair Inr assms with_timed_bad_width [of m n block w v w2] show ?thesis by simp
    qed
  qed
qed

section \<open>The printed number\<close>

lemma digits_table:
  "\<forall>d<10. is_digit (''0123456789'' ! d) \<and> digit_val (''0123456789'' ! d) = d"
  by (simp add: is_digit_def digit_val_def eval_nat_numeral All_less_Suc)

lemma is_digit_digit_char [simp]: "is_digit (digit_char d)"
  using digits_table by (simp add: digit_char_def)

lemma digit_val_digit_char [simp]: "digit_val (digit_char d) = d mod 10"
  using digits_table by (simp add: digit_char_def)

lemma not_digit_point [simp]: "\<not> is_digit CHR ''.''"
  by (simp add: is_digit_def)

lemma not_digit_minus [simp]: "\<not> is_digit CHR ''-''"
  by (simp add: is_digit_def)

lemma not_digit_space [simp]: "\<not> is_digit space"
  by (simp add: is_digit_def space_def)

lemma not_digit_newline [simp]: "\<not> is_digit newline"
  by (simp add: is_digit_def newline_def)

lemma str_nat_digits: "list_all is_digit (str_nat n)"
  by (induction n rule: str_nat.induct) (subst str_nat.simps, simp)

lemma str_nat_not_Nil [simp]: "str_nat n \<noteq> []"
  by (subst str_nat.simps) simp

lemma hd_str_nat_digit: "is_digit (hd (str_nat n))"
  using str_nat_digits [of n] by (cases "str_nat n") simp_all









text \<open>The text \<open>format_float_3f\<close> prints reads back as the rounded value, with three digits
  after the point.\<close>

lemma parse_fixed_shape:
  assumes "list_all is_digit ip" and "ip \<noteq> []" and "list_all is_digit fp" and "fp \<noteq> []"
  shows "parse_fixed ((if neg then ''-'' else []) @ ip @ ''.'' @ fp) = Some (neg, ip, fp)"
proof -
  from assms(1,2) have hd_ip: "hd (ip @ ''.'' @ fp) \<noteq> CHR ''-''"
    by (cases ip) auto
  from assms(1) have tw: "takeWhile is_digit (ip @ ''.'' @ fp) = ip"
    by (simp add: list_all_iff takeWhile_append2)
  from assms(1) have dw: "dropWhile is_digit (ip @ ''.'' @ fp) = ''.'' @ fp"
    by (simp add: list_all_iff dropWhile_append2)
  show ?thesis
  proof (cases neg)
    case True
    with tw dw assms show ?thesis by (simp add: parse_fixed_def)
  next
    case False
    with tw dw hd_ip assms show ?thesis by (simp add: parse_fixed_def Let_def)
  qed
qed

lemma parse_fixed_format_float_3f:
  "parse_fixed (format_float_3f x) =
     Some (x < 0, str_nat (nat (round_half_even (\<bar>x\<bar> * 1000)) div 1000),
           [digit_char (nat (round_half_even (\<bar>x\<bar> * 1000)) div 100 mod 10),
            digit_char (nat (round_half_even (\<bar>x\<bar> * 1000)) div 10 mod 10),
            digit_char (nat (round_half_even (\<bar>x\<bar> * 1000)) mod 10)])"
  unfolding format_float_3f_def Let_def
  by (rule parse_fixed_shape) (simp_all add: str_nat_digits)


lemma format_float_3f_not_Nil [simp]: "format_float_3f x \<noteq> []"
  by (simp add: format_float_3f_def Let_def)

lemma hd_format_float_3f:
  "hd (format_float_3f x) = (if x < 0 then CHR ''-'' else hd (str_nat (nat (round_half_even (\<bar>x\<bar> * 1000)) div 1000)))"
  by (simp add: format_float_3f_def Let_def)


lemma format_float_3f_chars:
  assumes "c \<in> set (format_float_3f x)"
  shows "is_digit c \<or> c = CHR ''-'' \<or> c = CHR ''.''"
  using assms str_nat_digits [of "nat (round_half_even (\<bar>x\<bar> * 1000)) div 1000"]
  by (auto simp: format_float_3f_def Let_def list_all_iff split: if_splits)

lemma newline_notin_format_float_3f: "newline \<notin> set (format_float_3f x)"
proof
  assume "newline \<in> set (format_float_3f x)"
  then have "is_digit newline \<or> newline = CHR ''-'' \<or> newline = CHR ''.''"
    by (rule format_float_3f_chars)
  then show False using not_digit_newline by (auto simp: newline_def)
qed

section \<open>Evaluating concrete runs\<close>

lemma floor_rat_numeral_div: "\<lfloor>numeral a / numeral b :: rat\<rfloor> = numeral a div numeral b"
  using floor_divide_of_int_eq [of "numeral a" "numeral b", where ?'a = rat] by simp

lemma replicate_numeral: "replicate (numeral k) x = x # replicate (pred_numeral k) x"
  by (simp add: numeral_eq_Suc)

lemmas format_defs =
  format_float_3f_def round_half_even_def Let_def str_nat.simps digit_char_def
  floor_rat_numeral_div

lemma newline_not_space: "newline \<noteq> space" "newline \<noteq> CHR ''s''"
  by (simp_all add: newline_def space_def)

lemma count_newline_summary:
  assumes "newline \<notin> set m"
  shows "count_list (m @ replicate k space @ format_float_3f x @ ''s'' @ [newline]) newline = 1"
proof -
  have "count_list m newline = 0"
    using assms by (simp add: count_list_0_iff)
  moreover have "count_list (replicate k space) newline = 0"
    using newline_not_space by (simp add: count_list_0_iff)
  moreover have "count_list (format_float_3f x) newline = 0"
    using newline_notin_format_float_3f by (simp add: count_list_0_iff)
  ultimately show ?thesis
    using newline_not_space by simp
qed


lemma format_zero: "format_float_3f 0 = ''0.000''"
  by (simp add: format_defs)


lemma format_tenth: "format_float_3f (1 / 10) = ''0.100''"
  by (simp add: format_defs)

lemma format_eighth: "format_float_3f (1 / 8) = ''0.125''"
  by (simp add: format_defs)

lemma sleep_eighth_run:
  "with_timed ''load'' 6 (sleep (1 / 8)) \<lparr>clock = 5, stdout = []\<rparr>
     = (Inr (Some ()),
        \<lparr>msg = ''load'', width = 6, pc = Finished, start = Some 5, stop = Some (41 / 8)\<rparr>,
        \<lparr>clock = 41 / 8, stdout = ''load  0.125s'' @ [newline]\<rparr>)"
proof -
  have "run_block ''load'' 6 (sleep (1 / 8)) \<lparr>clock = 5, stdout = []\<rparr>
          = (Inr (), \<lparr>clock = 41 / 8, stdout = []\<rparr>)"
    by (simp add: run_block_eq sleep_def)
  from with_timed_normal [OF this] format_eighth show ?thesis
    by (simp add: print_def space_def replicate_numeral)
qed

section \<open>The claims\<close>

text \<open>
  Claim C1, as the code has it: when the wrapped block raises, nothing after the \<open>yield\<close>
  runs, so no stop timestamp is captured and nothing is written to standard output, and
  the error leaves the statement; a scoped use that completes normally captures the stop
  timestamp and writes exactly one summary text followed by one newline, which is one line
  when the label holds no newline.
\<close>

theorem timed_summary_only_on_normal_exit:
  "(run_block m n block w = (Inl e, w2) \<longrightarrow>
      with_timed m n block w =
        (Inl e, \<lparr>msg = m, width = n, pc = Finished, start = Some (clock w), stop = None\<rparr>, w2))
   \<and> (with_timed m n block w = (Inr r, g, w3) \<longrightarrow>
        (\<exists>v w2. run_block m n block w = (Inr v, w2) \<and> stop g = Some (clock w2) \<and>
           stdout w3 = stdout w2 @ m @ replicate (nat n - length m) space
                         @ format_float_3f (clock w2 - clock w) @ ''s'' @ [newline] \<and>
           (newline \<notin> set m \<longrightarrow>
              count_list (drop (length (stdout w2)) (stdout w3)) newline = 1)))"
proof (intro conjI impI)
  assume "run_block m n block w = (Inl e, w2)"
  then show "with_timed m n block w =
        (Inl e, \<lparr>msg = m, width = n, pc = Finished, start = Some (clock w), stop = None\<rparr>, w2)"
    by (rule with_timed_raise)
next
  assume "with_timed m n block w = (Inr r, g, w3)"
  then obtain v w2' where run: "run_block m n block w = (Inr v, w2')"
    and g: "g = \<lparr>msg = m, width = n, pc = Finished, start = Some (clock w),
               stop = Some (clock w2')\<rparr>"
    and w3: "w3 = print (m @ replicate (nat n - length m) space
                       @ format_float_3f (clock w2' - clock w) @ ''s'') w2'"
    by (rule with_timed_returns)
  have out: "stdout w3 = stdout w2' @ m @ replicate (nat n - length m) space
                         @ format_float_3f (clock w2' - clock w) @ ''s'' @ [newline]"
    by (simp add: w3 print_def)
  have "newline \<notin> set m \<longrightarrow> count_list (drop (length (stdout w2')) (stdout w3)) newline = 1"
    using count_newline_summary [of m "nat n - length m" "clock w2' - clock w"]
    by (simp add: out)
  with run g out
  show "\<exists>v w2. run_block m n block w = (Inr v, w2) \<and> stop g = Some (clock w2) \<and>
           stdout w3 = stdout w2 @ m @ replicate (nat n - length m) space
                         @ format_float_3f (clock w2 - clock w) @ ''s'' @ [newline] \<and>
           (newline \<notin> set m \<longrightarrow>
              count_list (drop (length (stdout w2)) (stdout w3)) newline = 1)"
    by auto
qed

text \<open>
  Claim C1 as stated fails: with a block that raises after one second the statement ends
  with \<open>stop\<close> unassigned and with standard output as empty as it began.
\<close>

theorem timed_raising_block_prints_nothing:
  "with_timed ''load'' 40 (raise_after 1 (Failure ''boom'')) \<lparr>clock = 5, stdout = []\<rparr>
   = (Inl (Failure ''boom''),
      \<lparr>msg = ''load'', width = 40, pc = Finished, start = Some 5, stop = None\<rparr>,
      \<lparr>clock = 6, stdout = []\<rparr>)"
proof -
  have "run_block ''load'' 40 (raise_after 1 (Failure ''boom'')) \<lparr>clock = 5, stdout = []\<rparr>
          = (Inl (Failure ''boom''), \<lparr>clock = 6, stdout = []\<rparr>)"
    by (simp add: run_block_eq raise_after_def)
  from with_timed_raise [OF this] show ?thesis by simp
qed

text \<open>Claim C1, both parts, at two blocks: one that raises after a second, one that sleeps
  for an eighth of a second.\<close>

theorem timed_summary_only_on_normal_exit_witness:
  "run_block ''load'' 6 (raise_after 1 (Failure ''boom'')) \<lparr>clock = 5, stdout = []\<rparr>
     = (Inl (Failure ''boom''), \<lparr>clock = 6, stdout = []\<rparr>)
   \<and> with_timed ''load'' 6 (raise_after 1 (Failure ''boom'')) \<lparr>clock = 5, stdout = []\<rparr>
     = (Inl (Failure ''boom''),
        \<lparr>msg = ''load'', width = 6, pc = Finished, start = Some 5, stop = None\<rparr>,
        \<lparr>clock = 6, stdout = []\<rparr>)
   \<and> with_timed ''load'' 6 (sleep (1 / 8)) \<lparr>clock = 5, stdout = []\<rparr>
     = (Inr (Some ()),
        \<lparr>msg = ''load'', width = 6, pc = Finished, start = Some 5, stop = Some (41 / 8)\<rparr>,
        \<lparr>clock = 41 / 8, stdout = ''load  0.125s'' @ [newline]\<rparr>)
   \<and> newline \<notin> set ''load''
   \<and> count_list (drop (length ([] :: string)) (''load  0.125s'' @ [newline])) newline = 1"
proof -
  let ?w = "\<lparr>clock = 5, stdout = []\<rparr>"
  have raised: "run_block ''load'' 6 (raise_after 1 (Failure ''boom'')) ?w
                  = (Inl (Failure ''boom''), \<lparr>clock = 6, stdout = []\<rparr>)"
    by (simp add: run_block_eq raise_after_def)
  have block: "run_block ''load'' 6 (sleep (1 / 8)) ?w = (Inr (), \<lparr>clock = 41 / 8, stdout = []\<rparr>)"
    by (simp add: run_block_eq sleep_def)
  have returned: "with_timed ''load'' 6 (sleep (1 / 8)) ?w
     = (Inr (Some ()),
        \<lparr>msg = ''load'', width = 6, pc = Finished, start = Some 5, stop = Some (41 / 8)\<rparr>,
        \<lparr>clock = 41 / 8, stdout = ''load  0.125s'' @ [newline]\<rparr>)"
    by (rule sleep_eighth_run)
  have free: "newline \<notin> set ''load''"
    by (simp add: newline_def)
  from timed_summary_only_on_normal_exit
         [of "''load''" 6 "raise_after 1 (Failure ''boom'')" ?w "Failure ''boom''"
             "\<lparr>clock = 6, stdout = []\<rparr>"] raised
  have first: "with_timed ''load'' 6 (raise_after 1 (Failure ''boom'')) ?w
     = (Inl (Failure ''boom''),
        \<lparr>msg = ''load'', width = 6, pc = Finished, start = Some 5, stop = None\<rparr>,
        \<lparr>clock = 6, stdout = []\<rparr>)"
    by simp
  from timed_summary_only_on_normal_exit
         [of "''load''" 6 "sleep (1 / 8)" ?w _ _ "Some ()"
             "\<lparr>msg = ''load'', width = 6, pc = Finished, start = Some 5, stop = Some (41 / 8)\<rparr>"
             "\<lparr>clock = 41 / 8, stdout = ''load  0.125s'' @ [newline]\<rparr>"]
       returned block free
  have second: "count_list (drop (length ([] :: string)) (''load  0.125s'' @ [newline])) newline = 1"
    by simp
  from raised first returned free second show ?thesis by blast
qed






text \<open>
  Claim C4: the line a normally completing scoped use writes is the label left-justified
  in \<open>column_width\<close> characters (the label and then spaces, \<open>max\<close> of the two lengths in
  all), at once followed by the elapsed seconds in fixed notation, which has digits, a
  point and exactly three digits, at once followed by \<open>s\<close>.
\<close>

theorem timed_line_format:
  assumes "with_timed m n block w = (Inr r, g, w3)"
  shows "\<exists>v w2 ip fp.
           run_block m n block w = (Inr v, w2)
           \<and> stdout w3 = stdout w2 @ (m @ replicate (nat n - length m) space)
                           @ format_float_3f (clock w2 - clock w) @ ''s'' @ [newline]
           \<and> length (m @ replicate (nat n - length m) space) = max (length m) (nat n)
           \<and> parse_fixed (format_float_3f (clock w2 - clock w))
               = Some (clock w2 - clock w < 0, ip, fp)
           \<and> length fp = 3"
proof -
  from assms obtain v w2 where run: "run_block m n block w = (Inr v, w2)"
    and w3: "w3 = print (m @ replicate (nat n - length m) space
                       @ format_float_3f (clock w2 - clock w) @ ''s'') w2"
    by (rule with_timed_returns)
  have "stdout w3 = stdout w2 @ (m @ replicate (nat n - length m) space)
                           @ format_float_3f (clock w2 - clock w) @ ''s'' @ [newline]"
    by (simp add: w3 print_def)
  moreover have "length (m @ replicate (nat n - length m) space) = max (length m) (nat n)"
    by simp
  ultimately show ?thesis
    using run parse_fixed_format_float_3f [of "clock w2 - clock w"] by fastforce
qed

text \<open>Claim C4 at the scenario of the specification: the label \<open>load\<close>, the default width
  and a block that sleeps for a tenth of a second.\<close>

theorem timed_line_format_witness:
  "with_timed ''load'' 40 (sleep (1 / 10)) \<lparr>clock = 5, stdout = []\<rparr>
     = (Inr (Some ()),
        \<lparr>msg = ''load'', width = 40, pc = Finished, start = Some 5, stop = Some (51 / 10)\<rparr>,
        \<lparr>clock = 51 / 10, stdout = ''load'' @ replicate 36 space @ ''0.100s'' @ [newline]\<rparr>)
   \<and> parse_fixed ''0.100'' = Some (False, ''0'', ''100'')"
proof -
  let ?w = "\<lparr>clock = 5, stdout = []\<rparr>"
  have block: "run_block ''load'' 40 (sleep (1 / 10)) ?w
                 = (Inr (), \<lparr>clock = 51 / 10, stdout = []\<rparr>)"
    by (simp add: run_block_eq sleep_def)
  have run: "with_timed ''load'' 40 (sleep (1 / 10)) ?w
     = (Inr (Some ()),
        \<lparr>msg = ''load'', width = 40, pc = Finished, start = Some 5, stop = Some (51 / 10)\<rparr>,
        \<lparr>clock = 51 / 10, stdout = ''load'' @ replicate 36 space @ ''0.100s'' @ [newline]\<rparr>)"
    using with_timed_normal [OF block] by (simp add: print_def format_tenth)
  from timed_line_format [OF run] block
  obtain ip fp where "parse_fixed (format_float_3f (51 / 10 - 5)) = Some (51 / 10 - 5 < (0::rat), ip, fp)"
    and "length fp = 3"
    by auto
  then have "parse_fixed ''0.100'' = Some (False, ''0'', ''100'')"
    by (auto simp: format_tenth parse_fixed_def is_digit_def Let_def)
  with run show ?thesis by simp
qed

text \<open>
  Claim C5: an error raised inside the wrapped block is the error that leaves the \<open>with\<close>
  statement: it is neither swallowed nor replaced.
\<close>

theorem timed_propagates_block_error:
  assumes "run_block m n block w = (Inl e, w2)"
  shows "fst (with_timed m n block w) = Inl e"
  using with_timed_raise [OF assms] by simp

text \<open>Claim C5 at a block that raises \<open>Failure ''boom''\<close> after one second.\<close>

theorem timed_propagates_block_error_witness:
  "run_block ''load'' 40 (raise_after 1 (Failure ''boom'')) \<lparr>clock = 5, stdout = []\<rparr>
     = (Inl (Failure ''boom''), \<lparr>clock = 6, stdout = []\<rparr>)
   \<and> fst (with_timed ''load'' 40 (raise_after 1 (Failure ''boom'')) \<lparr>clock = 5, stdout = []\<rparr>)
     = Inl (Failure ''boom'')"
proof -
  have raised: "run_block ''load'' 40 (raise_after 1 (Failure ''boom'')) \<lparr>clock = 5, stdout = []\<rparr>
                  = (Inl (Failure ''boom''), \<lparr>clock = 6, stdout = []\<rparr>)"
    by (simp add: run_block_eq raise_after_def)
  from raised timed_propagates_block_error [OF raised] show ?thesis by (rule conjI)
qed



text \<open>
  Claim C7: a call of the elapsed accessor made while the block runs fails: it reads
  \<open>stop\<close>, which has no value before scope exit, and raises \<open>NameError\<close> instead of
  returning. The frame the accessor reads during the block is the one entry left, so the
  statement runs every block as if its accessor were the function that always fails.
\<close>

theorem elapsed_during_block_fails:
  "elapsed (fst (snd (cm_enter (timed m n) w))) = Inl (NameError ''stop'')
   \<and> with_timed m n block w = with_timed m n (\<lambda>t. block (\<lambda>_. Inl (NameError ''stop''))) w"
  by (simp add: with_timed_def cm_enter_timed elapsed_def)

text \<open>Claim C7 at the block that calls the accessor and returns what the call gave.\<close>

theorem elapsed_during_block_fails_witness:
  "elapsed (fst (snd (cm_enter (timed ''load'' 40) \<lparr>clock = 5, stdout = []\<rparr>)))
     = Inl (NameError ''stop'')
   \<and> fst (with_timed ''load'' 40 call_accessor \<lparr>clock = 5, stdout = []\<rparr>)
     = Inr (Some (Inl (NameError ''stop'')))"
proof -
  let ?w = "\<lparr>clock = 5, stdout = []\<rparr>"
  note fails = elapsed_during_block_fails [of "''load''" 40 ?w call_accessor]
  have "run_block ''load'' 40 (\<lambda>t. call_accessor (\<lambda>_. Inl (NameError ''stop''))) ?w
          = (Inr (Inl (NameError ''stop'')), ?w)"
    by (simp add: run_block_eq call_accessor_def)
  from with_timed_normal [OF this] fails show ?thesis by simp
qed

text \<open>
  Claim C8: the start timestamp is set, by a read of the clock, before the wrapped block
  runs: entry to the statement yields with \<open>start\<close> holding the clock of the world the
  statement began in, and that is still the value of \<open>start\<close> at the end, whatever the
  block did to the clock.
\<close>

theorem start_set_before_block:
  "fst (cm_enter (timed m n) w) = Inr ()
   \<and> pc (fst (snd (cm_enter (timed m n) w))) = AtYield
   \<and> start (fst (snd (cm_enter (timed m n) w))) = Some (fst (perf_counter w))
   \<and> start (fst (snd (with_timed m n block w))) = Some (clock w)"
proof -
  have "start (fst (snd (with_timed m n block w))) = Some (clock w)"
  proof (cases "run_block m n block w")
    case (Pair res w2)
    show ?thesis
    proof (cases res)
      case (Inl e)
      with Pair with_timed_raise [of m n block w e w2] show ?thesis by simp
    next
      case (Inr v)
      with Pair with_timed_normal [of m n block w v w2] with_timed_bad_width [of m n block w v w2]
      show ?thesis by (cases "0 \<le> n") simp_all
    qed
  qed
  then show ?thesis by (simp add: cm_enter_timed perf_counter_def)
qed

text \<open>Claim C8 at a block that sleeps for one second.\<close>

theorem start_set_before_block_witness:
  "start (fst (snd (with_timed ''load'' 40 (sleep 1) \<lparr>clock = 5, stdout = []\<rparr>))) = Some 5"
  using start_set_before_block [of "''load''" 40 "\<lparr>clock = 5, stdout = []\<rparr>" "sleep 1"]
  by simp

text \<open>
  Claim C9: after a scoped use that completes normally, the elapsed accessor returns
  \<open>stop - start\<close>, unrounded, and that same value is the one formatted into the summary
  line.
\<close>

theorem elapsed_after_exit_is_printed_value:
  assumes "with_timed m n block w = (Inr r, g, w3)"
  shows "\<exists>a b. start g = Some a \<and> stop g = Some b \<and> elapsed g = Inr (b - a) \<and>
           stdout w3 = stdout (snd (run_block m n block w)) @ m
                         @ replicate (nat n - length m) space
                         @ format_float_3f (b - a) @ ''s'' @ [newline]"
proof -
  from assms obtain v w2 where run: "run_block m n block w = (Inr v, w2)"
    and g: "g = \<lparr>msg = m, width = n, pc = Finished, start = Some (clock w),
               stop = Some (clock w2)\<rparr>"
    and w3: "w3 = print (m @ replicate (nat n - length m) space
                       @ format_float_3f (clock w2 - clock w) @ ''s'') w2"
    by (rule with_timed_returns)
  have "start g = Some (clock w)" and "stop g = Some (clock w2)"
    and "elapsed g = Inr (clock w2 - clock w)"
    by (simp_all add: g elapsed_def)
  moreover have "stdout w3 = stdout (snd (run_block m n block w)) @ m
                         @ replicate (nat n - length m) space
                         @ format_float_3f (clock w2 - clock w) @ ''s'' @ [newline]"
    by (simp add: w3 run print_def)
  ultimately show ?thesis by blast
qed

text \<open>Claim C9 at the block that sleeps for an eighth of a second.\<close>

theorem elapsed_after_exit_is_printed_value_witness:
  "with_timed ''load'' 6 (sleep (1 / 8)) \<lparr>clock = 5, stdout = []\<rparr>
     = (Inr (Some ()),
        \<lparr>msg = ''load'', width = 6, pc = Finished, start = Some 5, stop = Some (41 / 8)\<rparr>,
        \<lparr>clock = 41 / 8, stdout = ''load  0.125s'' @ [newline]\<rparr>)
   \<and> elapsed \<lparr>msg = ''load'', width = 6, pc = Finished, start = Some 5, stop = Some (41 / 8)\<rparr>
     = Inr (1 / 8)
   \<and> ''load  0.125s'' @ [newline]
     = ''load'' @ replicate 2 space @ format_float_3f (1 / 8) @ ''s'' @ [newline]"
proof -
  let ?g = "\<lparr>msg = ''load'', width = 6, pc = Finished, start = Some 5, stop = Some (41 / 8)\<rparr>"
  have run: "with_timed ''load'' 6 (sleep (1 / 8)) \<lparr>clock = 5, stdout = []\<rparr>
     = (Inr (Some ()), ?g, \<lparr>clock = 41 / 8, stdout = ''load  0.125s'' @ [newline]\<rparr>)"
    by (rule sleep_eighth_run)
  have block: "snd (run_block ''load'' 6 (sleep (1 / 8)) \<lparr>clock = 5, stdout = []\<rparr>)
                 = \<lparr>clock = 41 / 8, stdout = []\<rparr>"
    by (simp add: run_block_eq sleep_def)
  from elapsed_after_exit_is_printed_value [OF run]
  obtain a b where "start ?g = Some a" and "stop ?g = Some b"
    and acc: "elapsed ?g = Inr (b - a)"
    and out: "stdout \<lparr>clock = 41 / 8, stdout = ''load  0.125s'' @ [newline]\<rparr>
                = stdout (snd (run_block ''load'' 6 (sleep (1 / 8)) \<lparr>clock = 5, stdout = []\<rparr>))
                    @ ''load'' @ replicate (nat 6 - length ''load'') space
                    @ format_float_3f (b - a) @ ''s'' @ [newline]"
    by blast
  then have "a = 5" and "b = 41 / 8" by simp_all
  with acc out block
  have "elapsed ?g = Inr (1 / 8) \<and>
        ''load  0.125s'' @ [newline]
          = ''load'' @ replicate 2 space @ format_float_3f (1 / 8) @ ''s'' @ [newline]"
    by simp
  with run show ?thesis by simp
qed

text \<open>
  Claim C10: when the stop reading is not below the start reading, the elapsed value in
  the line of a normally completing scoped use is not negative: its text carries no minus
  sign and reads back as a number that is at least zero.
\<close>

theorem timed_prints_nonnegative:
  assumes "with_timed m n block w = (Inr r, g, w3)"
    and "start g = Some a" and "stop g = Some b" and "a \<le> b"
  shows "stdout w3 = stdout (snd (run_block m n block w)) @ m
                       @ replicate (nat n - length m) space
                       @ format_float_3f (b - a) @ ''s'' @ [newline]
         \<and> hd (format_float_3f (b - a)) \<noteq> CHR ''-''
         \<and> (\<exists>ip fp. parse_fixed (format_float_3f (b - a)) = Some (False, ip, fp)
                     \<and> 0 \<le> fixed_value (False, ip, fp))"
proof -
  from assms(1) obtain v w2 where run: "run_block m n block w = (Inr v, w2)"
    and g: "g = \<lparr>msg = m, width = n, pc = Finished, start = Some (clock w),
               stop = Some (clock w2)\<rparr>"
    and w3: "w3 = print (m @ replicate (nat n - length m) space
                       @ format_float_3f (clock w2 - clock w) @ ''s'') w2"
    by (rule with_timed_returns)
  from g assms(2,3) have ab: "a = clock w" "b = clock w2" by simp_all
  from assms(4) have nonneg: "\<not> b - a < 0" by simp
  have out: "stdout w3 = stdout (snd (run_block m n block w)) @ m
                       @ replicate (nat n - length m) space
                       @ format_float_3f (b - a) @ ''s'' @ [newline]"
    by (simp add: w3 run ab print_def)
  have sign: "hd (format_float_3f (b - a)) \<noteq> CHR ''-''"
    using nonneg hd_str_nat_digit [of "nat (round_half_even (\<bar>b - a\<bar> * 1000)) div 1000"]
    by (auto simp: hd_format_float_3f)
  have "\<exists>ip fp. parse_fixed (format_float_3f (b - a)) = Some (False, ip, fp)
                     \<and> 0 \<le> fixed_value (False, ip, fp)"
    using nonneg parse_fixed_format_float_3f [of "b - a"]
    by (simp add: fixed_value_def)
  with out sign show ?thesis by blast
qed

text \<open>Claim C10 at the least case: a block that takes no time at all; the line shows
  0.000.\<close>

theorem timed_prints_nonnegative_witness:
  "with_timed ''load'' 6 (sleep 0) \<lparr>clock = 5, stdout = []\<rparr>
     = (Inr (Some ()),
        \<lparr>msg = ''load'', width = 6, pc = Finished, start = Some 5, stop = Some 5\<rparr>,
        \<lparr>clock = 5, stdout = ''load  0.000s'' @ [newline]\<rparr>)
   \<and> (5::rat) \<le> 5
   \<and> hd ''0.000'' \<noteq> CHR ''-''
   \<and> (\<exists>ip fp. parse_fixed ''0.000'' = Some (False, ip, fp) \<and> 0 \<le> fixed_value (False, ip, fp))"
proof -
  let ?g = "\<lparr>msg = ''load'', width = 6, pc = Finished, start = Some 5, stop = Some 5\<rparr>"
  have block: "run_block ''load'' 6 (sleep 0) \<lparr>clock = 5, stdout = []\<rparr>
                 = (Inr (), \<lparr>clock = 5, stdout = []\<rparr>)"
    by (simp add: run_block_eq sleep_def)
  have run: "with_timed ''load'' 6 (sleep 0) \<lparr>clock = 5, stdout = []\<rparr>
     = (Inr (Some ()), ?g, \<lparr>clock = 5, stdout = ''load  0.000s'' @ [newline]\<rparr>)"
    using with_timed_normal [OF block]
    by (simp add: print_def format_zero space_def replicate_numeral)
  have a: "start ?g = Some 5" and b: "stop ?g = Some 5" by simp_all
  have le: "(5::rat) \<le> 5" by simp
  from timed_prints_nonnegative [OF run a b le]
  have "hd ''0.000'' \<noteq> CHR ''-''
   \<and> (\<exists>ip fp. parse_fixed ''0.000'' = Some (False, ip, fp) \<and> 0 \<le> fixed_value (False, ip, fp))"
    by (simp add: format_zero)
  with run le show ?thesis by simp
qed

end
